theory Spec2Isabelle
  imports Main "HOL-Library.Word"
begin

section \<open>Python values, exceptions and the library calls the decoder relies on\<close>

text \<open>
  The decoder of \<^verbatim>\<open>thrift-decoder.py\<close> is a Python class whose methods read from a binary
  file object, unpack the bytes with \<^verbatim>\<open>struct.unpack\<close> and store what they find in the
  attributes of the instance. Every failure of the program is an exception raised by the
  library, never by a check of its own (apart from \<^verbatim>\<open>raise NotImplementedError\<close>), so the
  model has the exception classes of Python as its error values.

  A byte is an \<open>8 word\<close>. A Python \<^verbatim>\<open>str\<close> is the list of its code points; \<open>ascii\<close> turns an
  Isabelle string literal into one. Python integers are unbounded, hence \<open>int\<close>.
\<close>

type_synonym byte = "8 word"
type_synonym pystr = "nat list"

definition ascii :: "string \<Rightarrow> pystr" where
  "ascii s = map of_char s"

datatype pyval =
    VNone
  | VBool bool
  | VInt int
  | VStr pystr
  | VFields "(int \<times> int \<times> pyval) list"

type_synonym field = "int \<times> int \<times> pyval"

datatype py_error =
    StructError
  | ValueError
  | UnicodeDecodeError
  | KeyError pyval
  | NotImplementedError
  | AttributeError

subsection \<open>The file object\<close>

text \<open>
  \<^verbatim>\<open>open(fn, 'rb')\<close> gives a buffered reader over the bytes of the file. \<^verbatim>\<open>read(n)\<close> returns the
  next \<open>n\<close> bytes, or all that are left when fewer remain, and moves the position past
  them; \<^verbatim>\<open>read(-1)\<close> returns everything up to the end of the file; any other negative size
  raises \<^verbatim>\<open>ValueError\<close>.
\<close>

record stream =
  remaining :: "byte list"
  offset :: nat

definition stream_read :: "int \<Rightarrow> stream \<Rightarrow> py_error + (byte list \<times> stream)" where
  "stream_read n s =
     (if n < - 1 then Inl ValueError
      else let k = (if n = - 1 then length (remaining s) else nat n)
           in Inr (take k (remaining s),
                   \<lparr>remaining = drop k (remaining s),
                    offset = offset s + min k (length (remaining s))\<rparr>))"

subsection \<open>\<^verbatim>\<open>struct.unpack\<close>\<close>

text \<open>
  \<^verbatim>\<open>unpack_one(fmt, bytes)\<close> is \<^verbatim>\<open>struct.unpack(fmt, bytes)[0]\<close>. The program uses five
  formats: \<^verbatim>\<open>'!B'\<close> (one unsigned byte), \<^verbatim>\<open>'!h'\<close>, \<^verbatim>\<open>'!i'\<close>, \<^verbatim>\<open>'!q'\<close> (big-endian two's
  complement of 2, 4 and 8 bytes) and \<^verbatim>\<open>'{}s'.format(length)\<close> (a byte string of that
  length). \<^verbatim>\<open>struct.unpack\<close> raises \<^verbatim>\<open>struct.error\<close> when the buffer has not exactly the size
  of the format, and when the format is malformed, as \<^verbatim>\<open>'-1s'\<close> is.
\<close>

definition be_uint :: "byte list \<Rightarrow> int" where
  "be_uint bs = foldl (\<lambda>acc b. acc * 256 + uint b) 0 bs"

definition unpack_unsigned :: "nat \<Rightarrow> byte list \<Rightarrow> py_error + int" where
  "unpack_unsigned n bs = (if length bs \<noteq> n then Inl StructError else Inr (be_uint bs))"

definition unpack_signed :: "nat \<Rightarrow> byte list \<Rightarrow> py_error + int" where
  "unpack_signed n bs =
     (if length bs \<noteq> n then Inl StructError
      else let u = be_uint bs
           in Inr (if 2 ^ (8 * n - 1) \<le> u then u - 2 ^ (8 * n) else u))"

definition unpack_one_B :: "byte list \<Rightarrow> py_error + int" where
  "unpack_one_B bs = unpack_unsigned 1 bs"

definition unpack_one_h :: "byte list \<Rightarrow> py_error + int" where
  "unpack_one_h bs = unpack_signed 2 bs"

definition unpack_one_i :: "byte list \<Rightarrow> py_error + int" where
  "unpack_one_i bs = unpack_signed 4 bs"

definition unpack_one_q :: "byte list \<Rightarrow> py_error + int" where
  "unpack_one_q bs = unpack_signed 8 bs"

definition unpack_one_s :: "int \<Rightarrow> byte list \<Rightarrow> py_error + byte list" where
  "unpack_one_s l bs = (if l < 0 \<or> int (length bs) \<noteq> l then Inl StructError else Inr bs)"

subsection \<open>\<^verbatim>\<open>bytes.decode('utf-8')\<close>\<close>

text \<open>
  The strict UTF-8 codec accepts exactly the well-formed byte sequences of the Unicode
  standard: no overlong forms, no surrogates, nothing above \<open>0x10FFFF\<close>. The result is the
  list of code points, \<open>None\<close> stands for \<^verbatim>\<open>UnicodeDecodeError\<close>.
\<close>

definition is_cont :: "nat \<Rightarrow> bool" where
  "is_cont b \<longleftrightarrow> 0x80 \<le> b \<and> b \<le> 0xBF"

definition second_ok :: "nat \<Rightarrow> nat \<Rightarrow> bool" where
  "second_ok b0 b1 \<longleftrightarrow>
     (if b0 = 0xE0 then 0xA0 \<le> b1 \<and> b1 \<le> 0xBF
      else if b0 = 0xED then 0x80 \<le> b1 \<and> b1 \<le> 0x9F
      else if b0 = 0xF0 then 0x90 \<le> b1 \<and> b1 \<le> 0xBF
      else if b0 = 0xF4 then 0x80 \<le> b1 \<and> b1 \<le> 0x8F
      else is_cont b1)"

fun utf8_code_points :: "nat list \<Rightarrow> pystr option" where
  "utf8_code_points [] = Some []"
| "utf8_code_points (b0 # bs) =
     (if b0 < 0x80 then map_option ((#) b0) (utf8_code_points bs)
      else if 0xC2 \<le> b0 \<and> b0 \<le> 0xDF then
        (case bs of
           b1 # r \<Rightarrow>
             if is_cont b1
             then map_option ((#) ((b0 - 0xC0) * 64 + (b1 - 0x80))) (utf8_code_points r)
             else None
         | _ \<Rightarrow> None)
      else if 0xE0 \<le> b0 \<and> b0 \<le> 0xEF then
        (case bs of
           b1 # b2 # r \<Rightarrow>
             if second_ok b0 b1 \<and> is_cont b2
             then map_option
                    ((#) ((b0 - 0xE0) * 4096 + (b1 - 0x80) * 64 + (b2 - 0x80)))
                    (utf8_code_points r)
             else None
         | _ \<Rightarrow> None)
      else if 0xF0 \<le> b0 \<and> b0 \<le> 0xF4 then
        (case bs of
           b1 # b2 # b3 # r \<Rightarrow>
             if second_ok b0 b1 \<and> is_cont b2 \<and> is_cont b3
             then map_option
                    ((#) ((b0 - 0xF0) * 262144 + (b1 - 0x80) * 4096 + (b2 - 0x80) * 64
                          + (b3 - 0x80)))
                    (utf8_code_points r)
             else None
         | _ \<Rightarrow> None)
      else None)"

definition utf8_decode :: "byte list \<Rightarrow> pystr option" where
  "utf8_decode bs = utf8_code_points (map unat bs)"

subsection \<open>\<^verbatim>\<open>'{}'.format\<close> of an integer\<close>

fun str_nat :: "nat \<Rightarrow> pystr" where
  "str_nat n = (if n < 10 then [48 + n] else str_nat (n div 10) @ [48 + n mod 10])"

declare str_nat.simps [simp del]

definition str_int :: "int \<Rightarrow> pystr" where
  "str_int i = (if i < 0 then 45 # str_nat (nat (- i)) else str_nat (nat i))"

text \<open>\<^verbatim>\<open>'UnknownStruct{}'.format(n)\<close> for a counter \<open>n\<close>, which is never negative.\<close>

definition struct_name :: "nat \<Rightarrow> pystr" where
  "struct_name n = ascii ''UnknownStruct'' @ str_nat n"

subsection \<open>\<^verbatim>\<open>OrderedDict.__setitem__\<close>\<close>

text \<open>A new key goes to the end; an existing key keeps its place and gets the new value.\<close>

fun dict_setitem :: "'k \<Rightarrow> 'v \<Rightarrow> ('k \<times> 'v) list \<Rightarrow> ('k \<times> 'v) list" where
  "dict_setitem k v [] = [(k, v)]"
| "dict_setitem k v (p # ps) = (if fst p = k then (k, v) # ps else p # dict_setitem k v ps)"

section \<open>The decoder\<close>

text \<open>
  The attributes that \<^verbatim>\<open>__init__\<close> binds on the instance are the fields of \<open>decoder\<close>. The three
  dictionaries \<^verbatim>\<open>type_handlers\<close>, \<^verbatim>\<open>type_names\<close> and \<^verbatim>\<open>message_types\<close> are attributes of the class:
  there is one of each in the program, whatever the number of instances, and \<^verbatim>\<open>__init__\<close>
  writes into them. A handler is a bound method, that is an instance together with a
  method. The \<open>world\<close> holds the instances by their identity, the class dictionaries and
  the lines printed on \<^verbatim>\<open>sys.stderr\<close>.
\<close>

datatype handler =
    H_read_bool | H_read_byte | H_read_double | H_read_i16 | H_read_i32 | H_read_i64
  | H_read_string | H_read_struct | H_read_map | H_read_set | H_read_list | H_read_enum

record decoder =
  structs :: "(pystr \<times> pyval) list"
  fields_attr :: "field list"
  fp :: "stream option"
  version :: "int option"
  message_type :: "int option"
  method_name :: "pystr option"
  sequence_id :: "int option"
  struct_name_counter :: nat

record world =
  heap :: "nat \<Rightarrow> decoder"
  next_id :: nat
  type_handlers :: "int \<rightharpoonup> nat \<times> handler"
  type_names :: "int \<rightharpoonup> pystr"
  message_types :: "int \<rightharpoonup> pystr"
  stderr :: "pystr list"

type_synonym 'a res = "(py_error + 'a) \<times> world"

definition blank_decoder :: decoder where
  "blank_decoder =
     \<lparr>structs = [], fields_attr = [], fp = None, version = None, message_type = None,
      method_name = None, sequence_id = None, struct_name_counter = 0\<rparr>"

text \<open>The state of the program before any decoder exists: the class dictionaries are empty.\<close>

definition world0 :: world where
  "world0 =
     \<lparr>heap = (\<lambda>_. blank_decoder), next_id = 0, type_handlers = Map.empty,
      type_names = Map.empty, message_types = Map.empty, stderr = []\<rparr>"

text \<open>\<^verbatim>\<open>ThriftDecoder()\<close>: a new instance, and the class dictionaries filled with its methods.\<close>

definition new_ThriftDecoder :: "world \<Rightarrow> nat \<times> world" where
  "new_ThriftDecoder w =
     (let self = next_id w
      in (self,
          w\<lparr>heap := (heap w)(self := blank_decoder),
            next_id := Suc self,
            message_types := (message_types w)
              (1 \<mapsto> ascii ''call'', 2 \<mapsto> ascii ''reply'', 3 \<mapsto> ascii ''oneway''),
            type_handlers := (type_handlers w)
              (2 \<mapsto> (self, H_read_bool), 3 \<mapsto> (self, H_read_byte),
               4 \<mapsto> (self, H_read_double), 6 \<mapsto> (self, H_read_i16),
               8 \<mapsto> (self, H_read_i32), 10 \<mapsto> (self, H_read_i64),
               11 \<mapsto> (self, H_read_string), 12 \<mapsto> (self, H_read_struct),
               13 \<mapsto> (self, H_read_map), 14 \<mapsto> (self, H_read_set),
               15 \<mapsto> (self, H_read_list), 16 \<mapsto> (self, H_read_enum)),
            type_names := (type_names w)
              (2 \<mapsto> ascii ''bool'', 3 \<mapsto> ascii ''byte'', 4 \<mapsto> ascii ''double'',
               6 \<mapsto> ascii ''i16'', 8 \<mapsto> ascii ''i32'', 10 \<mapsto> ascii ''i64'',
               11 \<mapsto> ascii ''string'', 12 \<mapsto> ascii ''struct'', 13 \<mapsto> ascii ''map'',
               14 \<mapsto> ascii ''set'', 15 \<mapsto> ascii ''list'', 16 \<mapsto> ascii ''enum'')\<rparr>))"

text \<open>An assignment to attributes of the instance \<open>self\<close>.\<close>

definition set_obj :: "nat \<Rightarrow> (decoder \<Rightarrow> decoder) \<Rightarrow> world \<Rightarrow> world" where
  "set_obj self f w = w\<lparr>heap := (heap w)(self := f (heap w self))\<rparr>"

subsection \<open>The scalar readers\<close>

text \<open>\<^verbatim>\<open>self.fp.read(n)\<close>; before \<^verbatim>\<open>decode\<close> the attribute \<^verbatim>\<open>fp\<close> is \<^verbatim>\<open>None\<close>, which has no \<^verbatim>\<open>read\<close>.\<close>

definition fp_read :: "nat \<Rightarrow> int \<Rightarrow> world \<Rightarrow> (byte list) res" where
  "fp_read self n w =
     (case fp (heap w self) of
        None \<Rightarrow> (Inl AttributeError, w)
      | Some s \<Rightarrow>
          (case stream_read n s of
             Inl e \<Rightarrow> (Inl e, w)
           | Inr (bs, s') \<Rightarrow> (Inr bs, set_obj self (\<lambda>d. d\<lparr>fp := Some s'\<rparr>) w)))"

definition read_byte :: "nat \<Rightarrow> world \<Rightarrow> int res" where
  "read_byte self w =
     (case fp_read self 1 w of
        (Inl e, w') \<Rightarrow> (Inl e, w')
      | (Inr bs, w') \<Rightarrow> (unpack_one_B bs, w'))"

definition read_bool :: "nat \<Rightarrow> world \<Rightarrow> bool res" where
  "read_bool self w =
     (case read_byte self w of
        (Inl e, w') \<Rightarrow> (Inl e, w')
      | (Inr b, w') \<Rightarrow> (Inr (b \<noteq> 0), w'))"

definition read_double :: "nat \<Rightarrow> world \<Rightarrow> pyval res" where
  "read_double self w = (Inl NotImplementedError, w)"

definition read_i16 :: "nat \<Rightarrow> world \<Rightarrow> int res" where
  "read_i16 self w =
     (case fp_read self 2 w of
        (Inl e, w') \<Rightarrow> (Inl e, w')
      | (Inr bs, w') \<Rightarrow> (unpack_one_h bs, w'))"

definition read_i32 :: "nat \<Rightarrow> world \<Rightarrow> int res" where
  "read_i32 self w =
     (case fp_read self 4 w of
        (Inl e, w') \<Rightarrow> (Inl e, w')
      | (Inr bs, w') \<Rightarrow> (unpack_one_i bs, w'))"

definition read_i64 :: "nat \<Rightarrow> world \<Rightarrow> int res" where
  "read_i64 self w =
     (case fp_read self 8 w of
        (Inl e, w') \<Rightarrow> (Inl e, w')
      | (Inr bs, w') \<Rightarrow> (unpack_one_q bs, w'))"

text \<open>
  \<^verbatim>\<open>read_string\<close>: the format string is built first, then the bytes are read, then unpacked,
  then decoded.
\<close>

definition read_string :: "nat \<Rightarrow> world \<Rightarrow> pystr res" where
  "read_string self w =
     (case read_i32 self w of
        (Inl e, w1) \<Rightarrow> (Inl e, w1)
      | (Inr l, w1) \<Rightarrow>
          (case fp_read self l w1 of
             (Inl e, w2) \<Rightarrow> (Inl e, w2)
           | (Inr bs, w2) \<Rightarrow>
               (case unpack_one_s l bs of
                  Inl e \<Rightarrow> (Inl e, w2)
                | Inr raw \<Rightarrow>
                    (case utf8_decode raw of
                       None \<Rightarrow> (Inl UnicodeDecodeError, w2)
                     | Some s \<Rightarrow> (Inr s, w2)))))"

definition read_type :: "nat \<Rightarrow> world \<Rightarrow> int res" where
  "read_type self w = read_byte self w"

definition read_field_id :: "nat \<Rightarrow> world \<Rightarrow> int res" where
  "read_field_id self w = read_i16 self w"

definition read_map :: "nat \<Rightarrow> world \<Rightarrow> pyval res" where
  "read_map self w = (Inl NotImplementedError, w)"

definition read_set :: "nat \<Rightarrow> world \<Rightarrow> pyval res" where
  "read_set self w = (Inl NotImplementedError, w)"

definition read_list :: "nat \<Rightarrow> world \<Rightarrow> pyval res" where
  "read_list self w = (Inl NotImplementedError, w)"

definition read_enum :: "nat \<Rightarrow> world \<Rightarrow> pyval res" where
  "read_enum self w = (Inl NotImplementedError, w)"

text \<open>The value a reader hands back to a caller that does not know its type.\<close>

definition boxed :: "('a \<Rightarrow> pyval) \<Rightarrow> 'a res \<Rightarrow> pyval res" where
  "boxed f r = (case r of (Inl e, w) \<Rightarrow> (Inl e, w) | (Inr a, w) \<Rightarrow> (Inr (f a), w))"

subsection \<open>\<^verbatim>\<open>read_struct\<close> and the dispatch through \<^verbatim>\<open>type_handlers\<close>\<close>

text \<open>
  \<^verbatim>\<open>read_struct\<close> loops until it reads the type 0 and calls, for every field, the bound method
  that the class dictionary holds for the type, which is \<^verbatim>\<open>read_struct\<close> again for type 12.
  Nothing in the program bounds the recursion, so the model counts calls and loop rounds
  down from a number given in advance; \<open>None\<close> says that the number was too small.
  \<open>struct_loop\<close> is the \<^verbatim>\<open>while\<close> loop, entered with the type just read and the fields so far.
  The name of a nested struct is made, and the counter incremented, after the handler has
  returned.
\<close>

fun read_struct :: "nat \<Rightarrow> nat \<Rightarrow> world \<Rightarrow> (field list) res option"
  and struct_loop :: "nat \<Rightarrow> nat \<Rightarrow> field list \<Rightarrow> int \<Rightarrow> world \<Rightarrow> (field list) res option"
  and call_handler :: "nat \<Rightarrow> nat \<Rightarrow> handler \<Rightarrow> world \<Rightarrow> pyval res option"
where
  "read_struct 0 self w = None"
| "read_struct (Suc n) self w =
     (case read_type self w of
        (Inl e, w') \<Rightarrow> Some (Inl e, w')
      | (Inr t, w') \<Rightarrow> struct_loop n self [] t w')"
| "struct_loop 0 self fs t w = None"
| "struct_loop (Suc n) self fs t w =
     (if t = 0 then Some (Inr fs, w)
      else
        (case read_field_id self w of
           (Inl e, w1) \<Rightarrow> Some (Inl e, w1)
         | (Inr field_id, w1) \<Rightarrow>
             (case type_handlers w1 t of
                None \<Rightarrow> Some (Inl (KeyError (VInt t)), w1)
              | Some (owner, h) \<Rightarrow>
                  (case call_handler n owner h w1 of
                     None \<Rightarrow> None
                   | Some (Inl e, w2) \<Rightarrow> Some (Inl e, w2)
                   | Some (Inr field_data, w2) \<Rightarrow>
                       (let (fs', w3) =
                              (if t = 12 then
                                 (let c = struct_name_counter (heap w2 self)
                                  in (fs @ [(field_id, t, VStr (struct_name c))],
                                      set_obj self
                                        (\<lambda>d. d\<lparr>struct_name_counter := c + 1,
                                                structs := dict_setitem (struct_name c) field_data
                                                             (structs d)\<rparr>)
                                        w2))
                               else (fs @ [(field_id, t, field_data)], w2))
                        in (case read_type self w3 of
                              (Inl e, w4) \<Rightarrow> Some (Inl e, w4)
                            | (Inr t', w4) \<Rightarrow> struct_loop n self fs' t' w4))))))"
| "call_handler 0 self h w = None"
| "call_handler (Suc n) self h w =
     (case h of
        H_read_bool \<Rightarrow> Some (boxed VBool (read_bool self w))
      | H_read_byte \<Rightarrow> Some (boxed VInt (read_byte self w))
      | H_read_double \<Rightarrow> Some (read_double self w)
      | H_read_i16 \<Rightarrow> Some (boxed VInt (read_i16 self w))
      | H_read_i32 \<Rightarrow> Some (boxed VInt (read_i32 self w))
      | H_read_i64 \<Rightarrow> Some (boxed VInt (read_i64 self w))
      | H_read_string \<Rightarrow> Some (boxed VStr (read_string self w))
      | H_read_struct \<Rightarrow> map_option (boxed VFields) (read_struct n self w)
      | H_read_map \<Rightarrow> Some (read_map self w)
      | H_read_set \<Rightarrow> Some (read_set self w)
      | H_read_list \<Rightarrow> Some (read_list self w)
      | H_read_enum \<Rightarrow> Some (read_enum self w))"

subsection \<open>\<^verbatim>\<open>read_header\<close> and \<^verbatim>\<open>decode\<close>\<close>

text \<open>
  The attributes are assigned one after the other, so a failure leaves the ones read so
  far on the instance. The warning is printed as it is written in the source: the braces
  are never filled in.
\<close>

definition VERSION_1 :: "byte list" where
  "VERSION_1 = [0x80, 0x01]"

definition bnd :: "'a res \<Rightarrow> ('a \<Rightarrow> world \<Rightarrow> 'b res option) \<Rightarrow> 'b res option" where
  "bnd r f = (case r of (Inl e, w) \<Rightarrow> Some (Inl e, w) | (Inr a, w) \<Rightarrow> f a w)"

definition warn_version :: "int \<Rightarrow> world \<Rightarrow> unit res" where
  "warn_version v w =
     (case unpack_one_h VERSION_1 of
        Inl e \<Rightarrow> (Inl e, w)
      | Inr expected \<Rightarrow>
          (if v \<noteq> expected
           then (Inr (), w\<lparr>stderr := stderr w @ [ascii ''Warning: unexpected version {}'']\<rparr>)
           else (Inr (), w)))"

definition read_header :: "nat \<Rightarrow> nat \<Rightarrow> world \<Rightarrow> unit res option" where
  "read_header n self w =
     bnd (read_i16 self w) (\<lambda>v w.
     bnd (warn_version v (set_obj self (\<lambda>d. d\<lparr>version := Some v\<rparr>) w)) (\<lambda>_ w.
     bnd (read_i16 self w) (\<lambda>mt w.
     bnd (read_string self (set_obj self (\<lambda>d. d\<lparr>message_type := Some mt\<rparr>) w)) (\<lambda>name w.
     bnd (read_i32 self (set_obj self (\<lambda>d. d\<lparr>method_name := Some name\<rparr>) w)) (\<lambda>sid w.
     (case read_struct n self (set_obj self (\<lambda>d. d\<lparr>sequence_id := Some sid\<rparr>) w) of
        None \<Rightarrow> None
      | Some r \<Rightarrow>
          bnd r (\<lambda>fs w. Some (Inr (), set_obj self (\<lambda>d. d\<lparr>fields_attr := fs\<rparr>) w))))))))"

text \<open>
  \<^verbatim>\<open>decode(fn)\<close> opens the file and reads the header. The model is given the bytes of the
  file in place of its name.
\<close>

definition decode :: "nat \<Rightarrow> nat \<Rightarrow> byte list \<Rightarrow> world \<Rightarrow> unit res option" where
  "decode n self content w =
     read_header n self
       (set_obj self (\<lambda>d. d\<lparr>fp := Some \<lparr>remaining = content, offset = 0\<rparr>\<rparr>) w)"

text \<open>
  The lookup \<^verbatim>\<open>self.message_types[self.message_type]\<close> that \<^verbatim>\<open>__str__\<close> makes for its second
  line. It is the only use of the table of message kinds in the program.
\<close>

definition message_type_name :: "nat \<Rightarrow> world \<Rightarrow> py_error + pystr" where
  "message_type_name self w =
     (case message_type (heap w self) of
        None \<Rightarrow> Inl (KeyError VNone)
      | Some mt \<Rightarrow>
          (case message_types w mt of
             None \<Rightarrow> Inl (KeyError (VInt mt))
           | Some s \<Rightarrow> Inr s))"

section \<open>Notions used to state the properties\<close>

text \<open>The table of handlers as \<^verbatim>\<open>__init__\<close> leaves it: every entry a method of the same instance.\<close>

definition handlers_of :: "nat \<Rightarrow> (int \<rightharpoonup> nat \<times> handler)" where
  "handlers_of self =
     [2 \<mapsto> (self, H_read_bool), 3 \<mapsto> (self, H_read_byte), 4 \<mapsto> (self, H_read_double),
      6 \<mapsto> (self, H_read_i16), 8 \<mapsto> (self, H_read_i32), 10 \<mapsto> (self, H_read_i64),
      11 \<mapsto> (self, H_read_string), 12 \<mapsto> (self, H_read_struct),
      13 \<mapsto> (self, H_read_map), 14 \<mapsto> (self, H_read_set), 15 \<mapsto> (self, H_read_list),
      16 \<mapsto> (self, H_read_enum)]"

text \<open>The world in which the decoder \<open>self\<close> is about to read the bytes \<open>bs\<close> at position \<open>k\<close>.\<close>

definition feed :: "nat \<Rightarrow> byte list \<Rightarrow> nat \<Rightarrow> world \<Rightarrow> world" where
  "feed self bs k w = set_obj self (\<lambda>d. d\<lparr>fp := Some \<lparr>remaining = bs, offset = k\<rparr>\<rparr>) w"

text \<open>
  The names \<open>UnknownStruct\<close>\<open>i\<close> from the counter of the decoder on are not yet keys of its
  table of structs.
\<close>

definition names_fresh :: "nat \<Rightarrow> world \<Rightarrow> bool" where
  "names_fresh self w \<longleftrightarrow>
     (\<forall>i. struct_name_counter (heap w self) \<le> i \<longrightarrow>
          struct_name i \<notin> fst ` set (structs (heap w self)))"

text \<open>
  Every field of type struct in \<open>fs\<close> holds a name \<open>UnknownStruct\<close>\<open>m\<close> with \<open>lo \<le> m < hi\<close>.
\<close>

definition refs_within :: "nat \<Rightarrow> nat \<Rightarrow> field list \<Rightarrow> bool" where
  "refs_within lo hi fs \<longleftrightarrow>
     (\<forall>(field_id, t, v) \<in> set fs. t = 12 \<longrightarrow> (\<exists>m. lo \<le> m \<and> m < hi \<and> v = VStr (struct_name m)))"

subsection \<open>The canonical encodings, for the round trip\<close>

text \<open>
  These follow the wire format of the specification, not the program, which has no
  encoder: big-endian two's complement of the given number of bytes, one byte 1 or 0 for
  a bool, and for a string the i32 length of its UTF-8 form followed by that form.
\<close>

fun be_bytes :: "nat \<Rightarrow> int \<Rightarrow> byte list" where
  "be_bytes 0 v = []"
| "be_bytes (Suc n) v = be_bytes n (v div 256) @ [word_of_int v]"

definition encode_bool :: "bool \<Rightarrow> byte list" where
  "encode_bool b = [if b then 1 else 0]"

definition encode_byte :: "int \<Rightarrow> byte list" where
  "encode_byte v = be_bytes 1 v"

definition encode_i16 :: "int \<Rightarrow> byte list" where
  "encode_i16 v = be_bytes 2 v"

definition encode_i32 :: "int \<Rightarrow> byte list" where
  "encode_i32 v = be_bytes 4 v"

definition encode_i64 :: "int \<Rightarrow> byte list" where
  "encode_i64 v = be_bytes 8 v"

definition scalar_value :: "nat \<Rightarrow> bool" where
  "scalar_value cp \<longleftrightarrow> cp < 0xD800 \<or> (0xE000 \<le> cp \<and> cp \<le> 0x10FFFF)"

definition utf8_encode_cp :: "nat \<Rightarrow> nat list" where
  "utf8_encode_cp cp =
     (if cp < 0x80 then [cp]
      else if cp < 0x800 then [0xC0 + cp div 64, 0x80 + cp mod 64]
      else if cp < 0x10000 then [0xE0 + cp div 4096, 0x80 + cp div 64 mod 64, 0x80 + cp mod 64]
      else [0xF0 + cp div 262144, 0x80 + cp div 4096 mod 64, 0x80 + cp div 64 mod 64,
            0x80 + cp mod 64])"

definition utf8_encode :: "pystr \<Rightarrow> byte list" where
  "utf8_encode s = map of_nat (concat (map utf8_encode_cp s))"

definition encode_string :: "pystr \<Rightarrow> byte list" where
  "encode_string s = encode_i32 (int (length (utf8_encode s))) @ utf8_encode s"

subsection \<open>The example messages\<close>

text \<open>
  The envelope of every example is that of the specification's end-to-end scenario:
  version \<open>80 01\<close>, message type 1, method \<^verbatim>\<open>ping\<close>, sequence id 42.
\<close>

definition ping_envelope :: "byte list" where
  "ping_envelope =
     [0x80, 0x01, 0x00, 0x01, 0x00, 0x00, 0x00, 0x04, 0x70, 0x69, 0x6E, 0x67,
      0x00, 0x00, 0x00, 0x2A]"

definition ping_message :: "byte list" where
  "ping_message = ping_envelope @ [0x00]"

text \<open>The state of the program after one call of \<^verbatim>\<open>ThriftDecoder()\<close>, and after two.\<close>

definition one_decoder :: world where
  "one_decoder = snd (new_ThriftDecoder world0)"

definition two_decoders :: world where
  "two_decoders = snd (new_ThriftDecoder one_decoder)"

named_theorems exec \<open>rewrite rules that run the decoder on given bytes\<close>

section \<open>Facts about the library calls\<close>

subsection \<open>Unpacking what the canonical encoding packs\<close>

lemma be_uint_snoc: "be_uint (bs @ [b]) = be_uint bs * 256 + uint b"
  by (simp add: be_uint_def)

lemma length_be_bytes: "length (be_bytes n v) = n"
  by (induction n arbitrary: v) auto

lemma be_uint_be_bytes: "be_uint (be_bytes n v) = v mod 256 ^ n"
proof (induction n arbitrary: v)
  case 0
  show ?case by (simp add: be_uint_def)
next
  case (Suc n)
  have "be_uint (be_bytes (Suc n) v) = (v div 256 mod 256 ^ n) * 256 + v mod 256"
    by (simp add: be_uint_snoc Suc uint_word_of_int)
  also have "\<dots> = v mod (256 * 256 ^ n)"
    using zmod_zmult2_eq [of "256 ^ n" v 256] by simp
  finally show ?case by simp
qed

lemma signed_wrap:
  fixes v h :: int
  assumes "- h \<le> v" "v < h"
  shows "(if h \<le> v mod (2 * h) then v mod (2 * h) - 2 * h else v mod (2 * h)) = v"
proof (cases "0 \<le> v")
  case True
  then have "v mod (2 * h) = v" using assms by simp
  then show ?thesis using assms by simp
next
  case False
  have "(v + 2 * h) mod (2 * h) = v + 2 * h"
    using False assms by (intro mod_pos_pos_trivial) auto
  then have "v mod (2 * h) = v + 2 * h" by simp
  then show ?thesis using False assms by simp
qed

lemma unpack_signed_be_bytes:
  assumes "(256::int) ^ n = 2 * h" "(2::int) ^ (8 * n - 1) = h" "- h \<le> v" "v < h"
  shows "unpack_signed n (be_bytes n v) = Inr v"
proof -
  have p: "(2::int) ^ (8 * n) = 2 * h"
    using assms(1) by (simp add: power_mult)
  have "unpack_signed n (be_bytes n v) =
          Inr (if h \<le> v mod (2 * h) then v mod (2 * h) - 2 * h else v mod (2 * h))"
    unfolding unpack_signed_def Let_def length_be_bytes be_uint_be_bytes assms(1,2) p
    by simp
  then show ?thesis
    using signed_wrap [OF assms(3,4)] by simp
qed

lemma unpack_one_h_encode: "- 32768 \<le> v \<Longrightarrow> v < 32768 \<Longrightarrow> unpack_one_h (encode_i16 v) = Inr v"
  unfolding unpack_one_h_def encode_i16_def by (rule unpack_signed_be_bytes [where h = 32768]) simp_all

lemma unpack_one_i_encode:
  "- 2147483648 \<le> v \<Longrightarrow> v < 2147483648 \<Longrightarrow> unpack_one_i (encode_i32 v) = Inr v"
  unfolding unpack_one_i_def encode_i32_def
  by (rule unpack_signed_be_bytes [where h = 2147483648]) simp_all

lemma unpack_one_q_encode:
  "- 9223372036854775808 \<le> v \<Longrightarrow> v < 9223372036854775808 \<Longrightarrow> unpack_one_q (encode_i64 v) = Inr v"
  unfolding unpack_one_q_def encode_i64_def
  by (rule unpack_signed_be_bytes [where h = 9223372036854775808]) simp_all

lemma unpack_one_B_encode: "0 \<le> v \<Longrightarrow> v < 256 \<Longrightarrow> unpack_one_B (encode_byte v) = Inr v"
  unfolding unpack_one_B_def encode_byte_def unpack_unsigned_def length_be_bytes
    be_uint_be_bytes
  by simp

subsection \<open>Decoding what the UTF-8 encoding produces\<close>

lemma utf8_step1:
  assumes "cp < 0x80"
  shows "utf8_code_points (utf8_encode_cp cp @ bs) = map_option ((#) cp) (utf8_code_points bs)"
  using assms by (simp add: utf8_encode_cp_def)

lemma utf8_step2:
  assumes "0x80 \<le> cp" "cp < 0x800"
  shows "utf8_code_points (utf8_encode_cp cp @ bs) = map_option ((#) cp) (utf8_code_points bs)"
proof -
  define a where "a = cp div 64"
  define b where "b = cp mod 64"
  have cp: "cp = a * 64 + b" and b: "b < 64" by (simp_all add: a_def b_def)
  have a: "2 \<le> a" "a \<le> 31" using assms cp b by arith+
  have enc: "utf8_encode_cp cp = [0xC0 + a, 0x80 + b]"
    using assms by (simp add: utf8_encode_cp_def a_def b_def)
  show ?thesis
    unfolding enc using a b by (simp add: is_cont_def cp)
qed

lemma utf8_step3:
  assumes "0x800 \<le> cp" "cp < 0x10000" "cp < 0xD800 \<or> 0xE000 \<le> cp"
  shows "utf8_code_points (utf8_encode_cp cp @ bs) = map_option ((#) cp) (utf8_code_points bs)"
proof -
  define a where "a = cp div 4096"
  define b where "b = cp div 64 mod 64"
  define c where "c = cp mod 64"
  have b: "b < 64" and c: "c < 64" by (simp_all add: b_def c_def)
  have a': "a = cp div 64 div 64" by (simp add: a_def div_mult2_eq)
  have "cp div 64 = a * 64 + b" unfolding a' b_def by simp
  moreover have "cp = cp div 64 * 64 + c" unfolding c_def by simp
  ultimately have cp: "cp = a * 4096 + b * 64 + c" by simp
  have a: "a \<le> 15" using assms cp b c by arith
  have a0: "a = 0 \<Longrightarrow> 32 \<le> b" using assms cp b c by arith
  have a13: "a = 13 \<Longrightarrow> b < 32" using assms cp b c by arith
  have enc: "utf8_encode_cp cp = [0xE0 + a, 0x80 + b, 0x80 + c]"
    using assms by (simp add: utf8_encode_cp_def a_def b_def c_def)
  show ?thesis
    unfolding enc using a a0 a13 b c by (auto simp: is_cont_def second_ok_def cp)
qed

lemma utf8_step4:
  assumes "0x10000 \<le> cp" "cp \<le> 0x10FFFF"
  shows "utf8_code_points (utf8_encode_cp cp @ bs) = map_option ((#) cp) (utf8_code_points bs)"
proof -
  define a where "a = cp div 262144"
  define b where "b = cp div 4096 mod 64"
  define c where "c = cp div 64 mod 64"
  define d where "d = cp mod 64"
  have b: "b < 64" and c: "c < 64" and d: "d < 64" by (simp_all add: b_def c_def d_def)
  have h1: "cp div 4096 = cp div 64 div 64"
    using div_mult2_eq [of cp 64 64] by simp
  have h2: "cp div 262144 = cp div 64 div 64 div 64"
    using div_mult2_eq [of cp 4096 64] h1 by simp
  have b': "b = cp div 64 div 64 mod 64" unfolding b_def h1 ..
  have a': "a = cp div 64 div 64 div 64" unfolding a_def h2 ..
  have "cp div 64 div 64 = a * 64 + b" unfolding a' b' by simp
  moreover have "cp div 64 = cp div 64 div 64 * 64 + c" unfolding c_def by simp
  moreover have "cp = cp div 64 * 64 + d" unfolding d_def by simp
  ultimately have cp: "cp = a * 262144 + b * 4096 + c * 64 + d" by simp
  have a: "a \<le> 4" using assms cp b c d by arith
  have a0: "a = 0 \<Longrightarrow> 16 \<le> b" using assms cp b c d by arith
  have a4: "a = 4 \<Longrightarrow> b < 16" using assms cp b c d by arith
  have enc: "utf8_encode_cp cp = [0xF0 + a, 0x80 + b, 0x80 + c, 0x80 + d]"
    using assms by (simp add: utf8_encode_cp_def a_def b_def c_def d_def)
  show ?thesis
    unfolding enc using a a0 a4 b c d by (auto simp: is_cont_def second_ok_def cp)
qed

lemma utf8_step:
  assumes "scalar_value cp"
  shows "utf8_code_points (utf8_encode_cp cp @ bs) = map_option ((#) cp) (utf8_code_points bs)"
proof -
  consider "cp < 0x80" | "0x80 \<le> cp" "cp < 0x800" | "0x800 \<le> cp" "cp < 0x10000" | "0x10000 \<le> cp"
    by linarith
  then show ?thesis
  proof cases
    case 1 then show ?thesis by (rule utf8_step1)
  next
    case 2 then show ?thesis by (rule utf8_step2)
  next
    case 3 then show ?thesis using assms by (intro utf8_step3) (auto simp: scalar_value_def)
  next
    case 4 then show ?thesis using assms by (intro utf8_step4) (auto simp: scalar_value_def)
  qed
qed

lemma utf8_code_points_encode:
  "list_all scalar_value s \<Longrightarrow> utf8_code_points (concat (map utf8_encode_cp s)) = Some s"
  by (induction s) (simp_all add: utf8_step)

lemma utf8_encode_cp_byte: "scalar_value cp \<Longrightarrow> \<forall>b \<in> set (utf8_encode_cp cp). b < 256"
  unfolding utf8_encode_cp_def scalar_value_def by auto

section \<open>Facts about the readers\<close>

lemma utf8_decode_encode:
  assumes "list_all scalar_value s"
  shows "utf8_decode (utf8_encode s) = Some s"
proof -
  have small: "x < 256" if "x \<in> set (concat (map utf8_encode_cp s))" for x
    using that assms utf8_encode_cp_byte by (auto simp: list_all_iff)
  have "map (\<lambda>x. unat (of_nat x :: byte)) (concat (map utf8_encode_cp s)) =
          concat (map utf8_encode_cp s)"
  proof (rule map_idI)
    fix x
    assume "x \<in> set (concat (map utf8_encode_cp s))"
    then have "x < 256" by (rule small)
    then show "unat (of_nat x :: byte) = x" by (simp add: unat_of_nat)
  qed
  then have "map unat (map of_nat (concat (map utf8_encode_cp s)) :: byte list) =
             concat (map utf8_encode_cp s)"
    by (simp add: comp_def)
  then show ?thesis
    unfolding utf8_decode_def utf8_encode_def using assms by (simp add: utf8_code_points_encode)
qed

subsection \<open>Assignments to the attributes of an instance\<close>

lemma heap_set_obj [simp]:
  "heap (set_obj i f w) j = (if j = i then f (heap w i) else heap w j)"
  by (simp add: set_obj_def)

lemma set_obj_fields [simp]:
  "type_handlers (set_obj i f w) = type_handlers w"
  "type_names (set_obj i f w) = type_names w"
  "message_types (set_obj i f w) = message_types w"
  "stderr (set_obj i f w) = stderr w"
  "next_id (set_obj i f w) = next_id w"
  by (simp_all add: set_obj_def)

lemma set_obj_set_obj [simp]: "set_obj i f (set_obj i g w) = set_obj i (\<lambda>d. f (g d)) w"
  by (simp add: set_obj_def)

lemma set_obj_stderr [simp]: "set_obj i f (w\<lparr>stderr := e\<rparr>) = (set_obj i f w)\<lparr>stderr := e\<rparr>"
  by (simp add: set_obj_def)

lemma feed_feed [simp]: "feed i bs k (feed i cs j w) = feed i bs k w"
  by (simp add: feed_def)

lemma heap_feed [simp]:
  "heap (feed i bs k w) j =
     (if j = i then (heap w i)\<lparr>fp := Some \<lparr>remaining = bs, offset = k\<rparr>\<rparr> else heap w j)"
  by (simp add: feed_def)

lemma feed_fields [simp]:
  "type_handlers (feed i bs k w) = type_handlers w"
  "type_names (feed i bs k w) = type_names w"
  "message_types (feed i bs k w) = message_types w"
  "stderr (feed i bs k w) = stderr w"
  "next_id (feed i bs k w) = next_id w"
  by (simp_all add: feed_def)

subsection \<open>What the scalar readers do to a stream\<close>

lemma fp_read_feed:
  "0 \<le> n \<Longrightarrow>
   fp_read self n (feed self bs k w) =
     (Inr (take (nat n) bs), feed self (drop (nat n) bs) (k + min (nat n) (length bs)) w)"
  by (simp add: fp_read_def stream_read_def feed_def Let_def)

lemma fp_read_feed_negative:
  "n < - 1 \<Longrightarrow> fp_read self n (feed self bs k w) = (Inl ValueError, feed self bs k w)"
  by (simp add: fp_read_def stream_read_def feed_def)

lemma fp_read_feed_all:
  "fp_read self (- 1) (feed self bs k w) = (Inr bs, feed self [] (k + length bs) w)"
  by (simp add: fp_read_def stream_read_def feed_def Let_def)

lemma fp_read_feed_app:
  "int (length xs) = n \<Longrightarrow>
   fp_read self n (feed self (xs @ rest) k w) = (Inr xs, feed self rest (k + length xs) w)"
  by (auto simp: fp_read_feed)

lemma read_byte_feed:
  "read_byte self (feed self (b # bs) k w) = (Inr (uint b), feed self bs (k + 1) w)"
  by (simp add: read_byte_def fp_read_feed unpack_one_B_def unpack_unsigned_def be_uint_def)

lemma read_byte_eof:
  "read_byte self (feed self [] k w) = (Inl StructError, feed self [] k w)"
  by (simp add: read_byte_def fp_read_feed unpack_one_B_def unpack_unsigned_def)

lemma read_byte_encode:
  assumes "0 \<le> v" "v < 256"
  shows "read_byte self (feed self (encode_byte v @ rest) k w) = (Inr v, feed self rest (k + 1) w)"
proof -
  have "fp_read self 1 (feed self (encode_byte v @ rest) k w) =
          (Inr (encode_byte v), feed self rest (k + length (encode_byte v)) w)"
    by (rule fp_read_feed_app) (simp add: encode_byte_def length_be_bytes)
  moreover have "length (encode_byte v) = 1"
    by (simp add: encode_byte_def length_be_bytes)
  ultimately show ?thesis
    using assms by (simp add: read_byte_def unpack_one_B_encode)
qed

lemma read_bool_encode:
  "read_bool self (feed self (encode_bool b @ rest) k w) = (Inr b, feed self rest (k + 1) w)"
  by (simp add: read_bool_def read_byte_feed encode_bool_def)

lemma read_i16_encode:
  assumes "- 32768 \<le> v" "v < 32768"
  shows "read_i16 self (feed self (encode_i16 v @ rest) k w) = (Inr v, feed self rest (k + 2) w)"
proof -
  have "fp_read self 2 (feed self (encode_i16 v @ rest) k w) =
          (Inr (encode_i16 v), feed self rest (k + length (encode_i16 v)) w)"
    by (rule fp_read_feed_app) (simp add: encode_i16_def length_be_bytes)
  moreover have "length (encode_i16 v) = 2"
    by (simp add: encode_i16_def length_be_bytes)
  ultimately show ?thesis
    using assms by (simp add: read_i16_def unpack_one_h_encode)
qed

lemma read_i32_encode:
  assumes "- 2147483648 \<le> v" "v < 2147483648"
  shows "read_i32 self (feed self (encode_i32 v @ rest) k w) = (Inr v, feed self rest (k + 4) w)"
proof -
  have "fp_read self 4 (feed self (encode_i32 v @ rest) k w) =
          (Inr (encode_i32 v), feed self rest (k + length (encode_i32 v)) w)"
    by (rule fp_read_feed_app) (simp add: encode_i32_def length_be_bytes)
  moreover have "length (encode_i32 v) = 4"
    by (simp add: encode_i32_def length_be_bytes)
  ultimately show ?thesis
    using assms by (simp add: read_i32_def unpack_one_i_encode)
qed

lemma read_i64_encode:
  assumes "- 9223372036854775808 \<le> v" "v < 9223372036854775808"
  shows "read_i64 self (feed self (encode_i64 v @ rest) k w) = (Inr v, feed self rest (k + 8) w)"
proof -
  have "fp_read self 8 (feed self (encode_i64 v @ rest) k w) =
          (Inr (encode_i64 v), feed self rest (k + length (encode_i64 v)) w)"
    by (rule fp_read_feed_app) (simp add: encode_i64_def length_be_bytes)
  moreover have "length (encode_i64 v) = 8"
    by (simp add: encode_i64_def length_be_bytes)
  ultimately show ?thesis
    using assms by (simp add: read_i64_def unpack_one_q_encode)
qed

text \<open>The string reader on a stream that starts with the i32 \<open>l\<close>, in every case.\<close>

lemma read_string_feed:
  assumes "- 2147483648 \<le> l" "l < 2147483648"
  shows "read_string self (feed self (encode_i32 l @ rest) k w) =
     (if l < - 1 then (Inl ValueError, feed self rest (k + 4) w)
      else if l = - 1 \<or> int (length rest) < l
        then (Inl StructError, feed self [] (k + 4 + length rest) w)
      else (case utf8_decode (take (nat l) rest) of
              None \<Rightarrow> (Inl UnicodeDecodeError, feed self (drop (nat l) rest) (k + 4 + nat l) w)
            | Some s \<Rightarrow> (Inr s, feed self (drop (nat l) rest) (k + 4 + nat l) w)))"
proof -
  have i: "read_i32 self (feed self (encode_i32 l @ rest) k w) = (Inr l, feed self rest (k + 4) w)"
    using assms by (rule read_i32_encode)
  consider "l < - 1" | "l = - 1" | "0 \<le> l" "int (length rest) < l" | "0 \<le> l" "l \<le> int (length rest)"
    by linarith
  then show ?thesis
  proof cases
    case 1
    then show ?thesis
      by (simp add: read_string_def i fp_read_feed_negative)
  next
    case 2
    with i show ?thesis
      by (simp add: read_string_def fp_read_feed_all unpack_one_s_def)
  next
    case 3
    then show ?thesis
      by (simp add: read_string_def i fp_read_feed unpack_one_s_def min_def)
  next
    case 4
    then have "nat l \<le> length rest" by linarith
    with 4 show ?thesis
      by (simp add: read_string_def i fp_read_feed unpack_one_s_def min_def split: option.split)
  qed
qed

subsection \<open>More calls allowed never change a result\<close>

declare read_struct.simps [simp del] struct_loop.simps [simp del] call_handler.simps [simp del]

lemma fuel_step:
  "(\<forall>self w r. read_struct n self w = Some r \<longrightarrow> read_struct (Suc n) self w = Some r) \<and>
   (\<forall>self fs t w r. struct_loop n self fs t w = Some r \<longrightarrow> struct_loop (Suc n) self fs t w = Some r) \<and>
   (\<forall>self h w r. call_handler n self h w = Some r \<longrightarrow> call_handler (Suc n) self h w = Some r)"
proof (induction n)
  case 0
  show ?case by (simp add: read_struct.simps struct_loop.simps call_handler.simps)
next
  case (Suc n)
  then have IH1: "\<And>self w r. read_struct n self w = Some r \<Longrightarrow> read_struct (Suc n) self w = Some r"
    and IH2: "\<And>self fs t w r. struct_loop n self fs t w = Some r \<Longrightarrow> struct_loop (Suc n) self fs t w = Some r"
    and IH3: "\<And>self h w r. call_handler n self h w = Some r \<Longrightarrow> call_handler (Suc n) self h w = Some r"
    by blast+
  have 1: "read_struct (Suc (Suc n)) self w = Some r" if a: "read_struct (Suc n) self w = Some r" for self w r
  proof -
    from a have "(case read_type self w of (Inl e, w') \<Rightarrow> Some (Inl e, w') | (Inr t, w') \<Rightarrow> struct_loop n self [] t w') = Some r"
      by (simp only: read_struct.simps)
    then show ?thesis
      by (subst read_struct.simps) (auto split: prod.splits sum.splits dest: IH2)
  qed
  have 3: "call_handler (Suc (Suc n)) self h w = Some r" if a: "call_handler (Suc n) self h w = Some r" for self h w r
  proof (cases h)
    case H_read_struct
    with a obtain x where "read_struct n self w = Some x" "r = boxed VFields x"
      by (auto simp: call_handler.simps)
    then show ?thesis using H_read_struct IH1 by (simp add: call_handler.simps)
  qed (use a in \<open>simp_all add: call_handler.simps\<close>)
  have 2: "struct_loop (Suc (Suc n)) self fs t w = Some r" if a: "struct_loop (Suc n) self fs t w = Some r" for self fs t w r
  proof -
    note a' = a [unfolded struct_loop.simps(2) [of n]]
    show ?thesis
      apply (subst struct_loop.simps(2))
      using a' by (auto simp: Let_def IH3 IH2 split: prod.splits sum.splits option.splits if_splits)
  qed
  show ?case using 1 2 3 by blast
qed

lemma read_struct_fuel: "read_struct n self w = Some r \<Longrightarrow> read_struct (n + k) self w = Some r"
  by (induction k) (simp_all add: fuel_step)

lemma struct_loop_fuel:
  "struct_loop n self fs t w = Some r \<Longrightarrow> struct_loop (n + k) self fs t w = Some r"
  by (induction k) (simp_all add: fuel_step)

lemma call_handler_fuel:
  "call_handler n self h w = Some r \<Longrightarrow> call_handler (n + k) self h w = Some r"
  by (induction k) (simp_all add: fuel_step)

lemma read_header_fuel:
  assumes "read_header n self w = Some r"
  shows "read_header (n + k) self w = Some r"
  using assms unfolding read_header_def bnd_def
  by (auto split: prod.splits sum.splits option.splits dest: read_struct_fuel [where k = k])

lemma decode_fuel: "decode n self content w = Some r \<Longrightarrow> decode (n + k) self content w = Some r"
  unfolding decode_def by (rule read_header_fuel)

subsection \<open>Running the decoder on given bytes\<close>

lemma bnd_weak_cong: "r = r' \<Longrightarrow> bnd r f = bnd r' f"
  by simp

lemma bnd_simps [exec]:
  "bnd (Inl e, w) f = Some (Inl e, w)"
  "bnd (Inr a, w) f = f a w"
  by (simp_all add: bnd_def)

lemma boxed_simps [exec]:
  "boxed g (Inl e, w) = (Inl e, w)"
  "boxed g (Inr a, w) = (Inr (g a), w)"
  by (simp_all add: boxed_def)

lemma decode_feed [exec]: "decode n self content w = read_header n self (feed self content 0 w)"
  by (simp add: decode_def feed_def)

lemma set_obj_feed [exec]:
  assumes "\<And>d x. F (d\<lparr>fp := x\<rparr>) = (F d)\<lparr>fp := x\<rparr>"
  shows "set_obj i F (feed i bs k w) = feed i bs k (set_obj i F w)"
  by (simp add: feed_def assms)

lemma feed_stderr [exec]: "(feed i bs k w)\<lparr>stderr := e\<rparr> = feed i bs k (w\<lparr>stderr := e\<rparr>)"
  by (simp add: feed_def)

lemma read_bool_feed [exec]:
  "read_bool self (feed self (b # bs) k w) = (Inr (uint b \<noteq> 0), feed self bs (k + 1) w)"
  by (simp add: read_bool_def read_byte_feed)

lemma read_bool_eof [exec]:
  "read_bool self (feed self [] k w) = (Inl StructError, feed self [] k w)"
  by (simp add: read_bool_def read_byte_eof)

lemma read_i16_feed2 [exec]:
  "read_i16 self (feed self (a # b # rest) k w) = (unpack_one_h [a, b], feed self rest (k + 2) w)"
  by (simp add: read_i16_def fp_read_feed)

lemma read_i32_feed4 [exec]:
  "read_i32 self (feed self (a # b # c # d # rest) k w) =
     (unpack_one_i [a, b, c, d], feed self rest (k + 4) w)"
proof -
  have l: "length [a, b, c, d] = 4" by simp
  have "fp_read self 4 (feed self ([a, b, c, d] @ rest) k w) =
          (Inr [a, b, c, d], feed self rest (k + length [a, b, c, d]) w)"
    by (rule fp_read_feed_app) simp
  then show ?thesis unfolding l by (simp add: read_i32_def)
qed

lemma read_i64_feed8 [exec]:
  "read_i64 self (feed self (a # b # c # d # e # f # g # h # rest) k w) =
     (unpack_one_q [a, b, c, d, e, f, g, h], feed self rest (k + 8) w)"
proof -
  have l: "length [a, b, c, d, e, f, g, h] = 8" by simp
  have "fp_read self 8 (feed self ([a, b, c, d, e, f, g, h] @ rest) k w) =
          (Inr [a, b, c, d, e, f, g, h], feed self rest (k + length [a, b, c, d, e, f, g, h]) w)"
    by (rule fp_read_feed_app) simp
  then show ?thesis unfolding l by (simp add: read_i64_def)
qed

lemma read_i16_short [exec]:
  "length bs < 2 \<Longrightarrow>
   read_i16 self (feed self bs k w) = (Inl StructError, feed self [] (k + length bs) w)"
  by (simp add: read_i16_def fp_read_feed unpack_one_h_def unpack_signed_def)

lemma read_i32_short [exec]:
  "length bs < 4 \<Longrightarrow>
   read_i32 self (feed self bs k w) = (Inl StructError, feed self [] (k + length bs) w)"
  by (simp add: read_i32_def fp_read_feed unpack_one_i_def unpack_signed_def)

lemma read_i64_short [exec]:
  "length bs < 8 \<Longrightarrow>
   read_i64 self (feed self bs k w) = (Inl StructError, feed self [] (k + length bs) w)"
  by (simp add: read_i64_def fp_read_feed unpack_one_q_def unpack_signed_def)

lemmas read_struct_numeral [exec] =
  read_struct.simps(2) [of "pred_numeral m", folded numeral_eq_Suc]
  struct_loop.simps(2) [of "pred_numeral m", folded numeral_eq_Suc]
  call_handler.simps(2) [of "pred_numeral m", folded numeral_eq_Suc]
  for m

lemmas read_struct_one [exec] =
  read_struct.simps(2) [of 0, folded One_nat_def]
  struct_loop.simps(2) [of 0, folded One_nat_def]
  call_handler.simps(2) [of 0, folded One_nat_def]

lemmas [exec] =
  read_struct.simps struct_loop.simps call_handler.simps read_header_def
  read_byte_feed read_byte_eof read_type_def read_field_id_def read_string_def fp_read_feed
  read_double_def read_map_def read_set_def read_list_def read_enum_def
  unpack_one_B_def unpack_one_h_def unpack_one_i_def unpack_one_q_def unpack_one_s_def
  unpack_signed_def unpack_unsigned_def be_uint_def utf8_decode_def warn_version_def VERSION_1_def
  struct_name_def str_nat.simps Let_def

lemma ping_two:
  "decode 2 self ping_message w =
     Some (Inr (),
           feed self [] 17
             (set_obj self
                (\<lambda>d. d\<lparr>version := Some (- 32767), message_type := Some 1,
                        method_name := Some (ascii ''ping''), sequence_id := Some 42,
                        fields_attr := []\<rparr>)
                w))"
  by (simp add: exec ping_message_def ping_envelope_def ascii_def cong: bnd_weak_cong)

lemma new_ThriftDecoder_self: "fst (new_ThriftDecoder w) = next_id w"
  by (simp add: new_ThriftDecoder_def Let_def)

lemma new_ThriftDecoder_blank: "heap (snd (new_ThriftDecoder w)) (next_id w) = blank_decoder"
  by (simp add: new_ThriftDecoder_def Let_def)

lemma new_ThriftDecoder_message_types:
  "message_types (snd (new_ThriftDecoder w)) 1 = Some (ascii ''call'')"
  "message_types (snd (new_ThriftDecoder w)) 2 = Some (ascii ''reply'')"
  "message_types (snd (new_ThriftDecoder w)) 3 = Some (ascii ''oneway'')"
  by (simp_all add: new_ThriftDecoder_def Let_def)

section \<open>The claims\<close>

text \<open>
  C1. On a decoder that has just been constructed, in whatever state the program is,
  decoding the bytes \<open>80 01 00 01 00 00 00 04 70 69 6E 67 00 00 00 2A 00\<close> succeeds, with any number of
  calls allowed from two on. Afterwards the decoder holds version -32767, message type
  1, which the table of message kinds names \<^verbatim>\<open>call\<close>, method name \<^verbatim>\<open>ping\<close>, sequence id 42 and
  no fields; its table of structs is empty and its stream is at offset 17 with nothing
  left, the stop byte of the empty struct being the last byte read.
\<close>

theorem ping_message_decodes:
  "(case new_ThriftDecoder w0 of
      (self, w) \<Rightarrow>
        (\<exists>w'. decode (n + 2) self ping_message w = Some (Inr (), w') \<and>
              heap w' self =
                \<lparr>structs = [], fields_attr = [],
                 fp = Some \<lparr>remaining = [], offset = 17\<rparr>,
                 version = Some (- 32767), message_type = Some 1,
                 method_name = Some (ascii ''ping''), sequence_id = Some 42,
                 struct_name_counter = 0\<rparr> \<and>
              message_type_name self w' = Inr (ascii ''call'') \<and>
              stderr w' = stderr w0))"
proof -
  obtain self w where new: "new_ThriftDecoder w0 = (self, w)"
    by (cases "new_ThriftDecoder w0")
  have self: "self = next_id w0" and blank: "heap w self = blank_decoder"
    and call: "message_types w 1 = Some (ascii ''call'')" and err: "stderr w = stderr w0"
    using new new_ThriftDecoder_self [of w0] new_ThriftDecoder_blank [of w0]
      new_ThriftDecoder_message_types(1) [of w0]
    by (auto simp: new_ThriftDecoder_def Let_def)
  have "decode (2 + n) self ping_message w =
          Some (Inr (),
                feed self [] 17
                  (set_obj self
                     (\<lambda>d. d\<lparr>version := Some (- 32767), message_type := Some 1,
                             method_name := Some (ascii ''ping''), sequence_id := Some 42,
                             fields_attr := []\<rparr>)
                     w))"
    by (rule decode_fuel) (rule ping_two)
  then show ?thesis
    unfolding new using blank call err
    by (simp add: add.commute message_type_name_def blank_decoder_def)
qed

text \<open>
  C10. A string whose length prefix is \<open>00 00 00 00\<close> is read as the empty string, and the
  stream has moved by exactly the four bytes of the prefix, whatever follows them.
\<close>

theorem empty_string_read:
  "read_string self (feed self (0 # 0 # 0 # 0 # rest) k w) = (Inr [], feed self rest (k + 4) w)"
  by (simp add: exec)

lemma be_bytes_numeral:
  "be_bytes (numeral m) v = be_bytes (pred_numeral m) (v div 256) @ [word_of_int v]"
  by (simp add: numeral_eq_Suc)

lemma be_bytes_one: "be_bytes 1 v = [word_of_int v]"
  by simp

lemmas encode_defs =
  encode_bool_def encode_byte_def encode_i16_def encode_i32_def encode_i64_def
  encode_string_def utf8_encode_def utf8_encode_cp_def be_bytes_numeral be_bytes_one

lemma encode_examples: "encode_i32 (- 1) = [0xFF, 0xFF, 0xFF, 0xFF]" "encode_i32 5 = [0, 0, 0, 5]"
  "encode_i16 (-2) = [0xFF, 0xFE]" "encode_i64 (- 9223372036854775808) = [0x80,0,0,0,0,0,0,0]"
  "encode_string (ascii ''hello'') = [0,0,0,5,0x68,0x65,0x6C,0x6C,0x6F]"
  by (simp_all add: encode_defs ascii_def)

lemma one_decoder_simps [exec]:
  "type_handlers one_decoder = handlers_of 0"
  "heap one_decoder 0 = blank_decoder"
  "stderr one_decoder = []"
  "next_id one_decoder = 1"
  by (simp_all add: one_decoder_def new_ThriftDecoder_def world0_def handlers_of_def Let_def)

lemma two_decoders_simps [exec]:
  "type_handlers two_decoders = handlers_of 1"
  "heap two_decoders 0 = blank_decoder"
  "heap two_decoders 1 = blank_decoder"
  "stderr two_decoders = []"
  by (simp_all add: two_decoders_def one_decoder_def new_ThriftDecoder_def world0_def handlers_of_def Let_def)

lemma one_decoder_message_types [exec]:
  "message_types one_decoder = [1 \<mapsto> ascii ''call'', 2 \<mapsto> ascii ''reply'', 3 \<mapsto> ascii ''oneway'']"
  "message_types two_decoders = [1 \<mapsto> ascii ''call'', 2 \<mapsto> ascii ''reply'', 3 \<mapsto> ascii ''oneway'']"
  by (simp_all add: two_decoders_def one_decoder_def new_ThriftDecoder_def world0_def Let_def)

text \<open>
  C2. The claim fails on the program: a message whose struct holds one field of type
  enum (code 16) with the i32 value 1 is not decoded, the decode ends with
  \<^verbatim>\<open>NotImplementedError\<close>.
\<close>

theorem enum_field_not_decoded:
  "map_option fst
     (decode 3 0 (ping_envelope @ [0x10, 0x00, 0x01, 0x00, 0x00, 0x00, 0x01, 0x00]) one_decoder) =
   Some (Inl NotImplementedError)"
  by (simp add: exec ping_envelope_def handlers_of_def cong: bnd_weak_cong)

text \<open>
  C2, as the program has it. The readers of double, map, set, list and enum fail with
  \<^verbatim>\<open>NotImplementedError\<close> and read nothing, on every stream; they do so as well when called
  through the table of handlers, where the codes 4, 13, 14, 15 and 16 lead to them.
\<close>

theorem aggregate_readers_unimplemented:
  "read_double self w = (Inl NotImplementedError, w) \<and>
   read_map self w = (Inl NotImplementedError, w) \<and>
   read_set self w = (Inl NotImplementedError, w) \<and>
   read_list self w = (Inl NotImplementedError, w) \<and>
   read_enum self w = (Inl NotImplementedError, w) \<and>
   call_handler (Suc n) self H_read_double w = Some (Inl NotImplementedError, w) \<and>
   call_handler (Suc n) self H_read_map w = Some (Inl NotImplementedError, w) \<and>
   call_handler (Suc n) self H_read_set w = Some (Inl NotImplementedError, w) \<and>
   call_handler (Suc n) self H_read_list w = Some (Inl NotImplementedError, w) \<and>
   call_handler (Suc n) self H_read_enum w = Some (Inl NotImplementedError, w) \<and>
   handlers_of self 4 = Some (self, H_read_double) \<and>
   handlers_of self 13 = Some (self, H_read_map) \<and>
   handlers_of self 14 = Some (self, H_read_set) \<and>
   handlers_of self 15 = Some (self, H_read_list) \<and>
   handlers_of self 16 = Some (self, H_read_enum)"
  by (simp add: read_double_def read_map_def read_set_def read_list_def read_enum_def
      call_handler.simps handlers_of_def)

text \<open>
  C8. The claim fails for the type double: on the eight bytes \<open>3F F0 00 00 00 00 00 00\<close>, the
  encoding of 1.0, the handler of code 4 returns no value but \<^verbatim>\<open>NotImplementedError\<close>, and
  the bytes stay unread.
\<close>

theorem double_not_decoded:
  "type_handlers one_decoder 4 = Some (0, H_read_double) \<and>
   call_handler 1 0 H_read_double (feed 0 [0x3F, 0xF0, 0, 0, 0, 0, 0, 0] 0 one_decoder) =
     Some (Inl NotImplementedError, feed 0 [0x3F, 0xF0, 0, 0, 0, 0, 0, 0] 0 one_decoder)"
  by (simp add: exec handlers_of_def)

end
